theory Spec2Isabelle
  imports Main
begin

section \<open>The DDNS update handler of unifi-ddns\<close>

text \<open>
  The repository is one request handler (\<^verbatim>\<open>src/index.ts\<close>) and a second variant of it
  (\<^verbatim>\<open>unnamed/part_000\<close>): parse the credentials of the \<^verbatim>\<open>Authorization\<close> header, build
  the target record from the query string and the connecting address, then verify the
  token, list the zones, list the records and update the one record found.

  Strings are \<open>string\<close>: the value of a header and the output of \<^verbatim>\<open>atob\<close> are byte
  strings (every character has a code below 256), which is what \<open>char\<close> is. A value that
  may be \<^verbatim>\<open>null\<close> or \<^verbatim>\<open>undefined\<close> is an \<open>option\<close>. An exception is a value of \<open>error\<close>;
  a function that may throw returns \<open>error + 'a\<close>. The calls of \<^verbatim>\<open>console.log\<close> write
  to the log only and are left out: nothing they compute reaches a result or a call to
  the provider.
\<close>

subsection \<open>Errors and responses\<close>

text \<open>
  \<^verbatim>\<open>class HttpError extends Error { constructor(public statusCode, message) }\<close>.
  Everything else that is thrown (the \<^verbatim>\<open>InvalidCharacterError\<close> of \<^verbatim>\<open>atob\<close>, an error of
  the provider's client) is \<open>Thrown\<close> with its name: the handler only tests
  \<^verbatim>\<open>error instanceof HttpError\<close>.
\<close>

datatype error = HttpError (statusCode: nat) (message: string) | Thrown string

record Response =
  status :: nat
  body :: string

subsection \<open>JavaScript strings\<close>

text \<open>\<^verbatim>\<open>!x\<close> for a value that is a string, \<^verbatim>\<open>null\<close> or \<^verbatim>\<open>undefined\<close>: true for
  \<^verbatim>\<open>null\<close>, \<^verbatim>\<open>undefined\<close> and the empty string.\<close>

fun falsy :: "string option \<Rightarrow> bool" where
  "falsy None = True"
| "falsy (Some s) = (s = [])"

text \<open>\<^verbatim>\<open>a || b\<close> on such values.\<close>

definition js_or :: "string option \<Rightarrow> string option \<Rightarrow> string option" where
  "js_or a b = (if falsy a then b else a)"

text \<open>\<^verbatim>\<open>s.split(sep)\<close> for a separator of one character: the pieces between the
  separators, the empty string giving one empty piece.\<close>

fun js_split :: "char \<Rightarrow> string \<Rightarrow> string list" where
  "js_split sep [] = [Nil]"
| "js_split sep (c # cs) =
     (if c = sep then [] # js_split sep cs
      else (case js_split sep cs of
              [] \<Rightarrow> [c] # []
            | t # ts \<Rightarrow> (c # t) # ts))"

text \<open>\<^verbatim>\<open>s.indexOf(c)\<close>: the first position of \<open>c\<close>, or \<open>-1\<close>.\<close>

fun indexOf :: "string \<Rightarrow> char \<Rightarrow> int" where
  "indexOf [] c = - 1"
| "indexOf (x # xs) c =
     (if x = c then 0
      else (let i = indexOf xs c in if i = - 1 then - 1 else i + 1))"

text \<open>\<^verbatim>\<open>s.substring(a, b)\<close> and \<^verbatim>\<open>s.substring(a)\<close>: negative arguments count as 0,
  arguments beyond the end as the length, and the two are swapped when \<open>b < a\<close>.\<close>

definition substring :: "string \<Rightarrow> int \<Rightarrow> int \<Rightarrow> string" where
  "substring s a b =
     (let lo = min (nat a) (nat b); hi = max (nat a) (nat b)
      in take (hi - lo) (drop lo s))"

definition substring_from :: "string \<Rightarrow> int \<Rightarrow> string" where
  "substring_from s a = drop (nat a) s"

text \<open>\<^verbatim>\<open>/[\0-\x1F\x7F]/.test(s)\<close>: some character of \<open>s\<close> has a code from 0 to 31, or 127.\<close>

definition control_char :: "char \<Rightarrow> bool" where
  "control_char c = ((of_char c :: nat) \<le> 31 \<or> (of_char c :: nat) = 127)"

definition has_control_char :: "string \<Rightarrow> bool" where
  "has_control_char s = list_ex control_char s"

subsection \<open>Base64: \<^verbatim>\<open>atob\<close>\<close>

text \<open>
  \<^verbatim>\<open>atob\<close> is a function of the platform. It is modelled after its definition in the
  HTML standard, the forgiving-base64 decode of the Infra standard: remove the ASCII
  whitespace; if the length is a multiple of 4, remove one or two \<^verbatim>\<open>=\<close> at the end; fail
  if the length is now 1 modulo 4; fail if a character is not in the alphabet of RFC 4648
  (Table 1); decode 4 characters of 6 bits to 3 bytes, and a last group of 2 or 3
  characters to 1 or 2 bytes, dropping the 4 or 2 bits left over. A failure throws the
  \<^verbatim>\<open>InvalidCharacterError\<close>.
\<close>

definition ascii_whitespace :: "char \<Rightarrow> bool" where
  "ascii_whitespace c = ((of_char c :: nat) \<in> {9, 10, 12, 13, 32})"

text \<open>The value of a character in the alphabet: \<^verbatim>\<open>A-Z\<close> are 0 to 25, \<^verbatim>\<open>a-z\<close> 26 to 51,
  \<^verbatim>\<open>0-9\<close> 52 to 61, \<^verbatim>\<open>+\<close> is 62 and \<^verbatim>\<open>/\<close> is 63.\<close>

definition b64_value :: "char \<Rightarrow> nat option" where
  "b64_value c =
     (let k = (of_char c :: nat)
      in if 65 \<le> k \<and> k \<le> 90 then Some (k - 65)
         else if 97 \<le> k \<and> k \<le> 122 then Some (k - 71)
         else if 48 \<le> k \<and> k \<le> 57 then Some (k + 4)
         else if k = 43 then Some 62
         else if k = 47 then Some 63
         else None)"

fun b64_values :: "string \<Rightarrow> nat list option" where
  "b64_values [] = Some []"
| "b64_values (c # cs) =
     (case b64_value c of
        None \<Rightarrow> None
      | Some n \<Rightarrow> map_option ((#) n) (b64_values cs))"

text \<open>The bit buffer: four values of 6 bits are three bytes; of a last group of two
  values the last 4 bits are dropped, of a last group of three the last 2 bits.\<close>

fun decode_groups :: "nat list \<Rightarrow> nat list" where
  "decode_groups (a # b # c # d # ns) =
     (a * 4 + b div 16) # ((b mod 16) * 16 + c div 4) # ((c mod 4) * 64 + d) # decode_groups ns"
| "decode_groups [a, b, c] = [a * 4 + b div 16, (b mod 16) * 16 + c div 4]"
| "decode_groups [a, b] = [a * 4 + b div 16]"
| "decode_groups [a] = []"
| "decode_groups [] = []"

text \<open>``If data ends with one or two \<^verbatim>\<open>=\<close>, remove them.''\<close>

definition remove_padding :: "string \<Rightarrow> string" where
  "remove_padding s =
     (case rev s of
        c # d # r \<Rightarrow>
          (if c = CHR ''='' \<and> d = CHR ''='' then rev r
           else if c = CHR ''='' then rev (d # r)
           else s)
      | [c] \<Rightarrow> (if c = CHR ''='' then [] else s)
      | [] \<Rightarrow> s)"

definition forgiving_base64_decode :: "string \<Rightarrow> string option" where
  "forgiving_base64_decode input =
     (let data = filter (\<lambda>c. \<not> ascii_whitespace c) input;
          data = (if length data mod 4 = 0 then remove_padding data else data)
      in if length data mod 4 = 1 then None
         else (case b64_values data of
                 None \<Rightarrow> None
               | Some ns \<Rightarrow> Some (map char_of (decode_groups ns))))"

text \<open>\<^verbatim>\<open>atob(data)\<close>; an argument that is \<^verbatim>\<open>undefined\<close> is first converted to the string
  \<^verbatim>\<open>"undefined"\<close>.\<close>

definition atob :: "string option \<Rightarrow> error + string" where
  "atob data =
     (case forgiving_base64_decode (case data of None \<Rightarrow> ''undefined'' | Some d \<Rightarrow> d) of
        None \<Rightarrow> Inl (Thrown ''InvalidCharacterError'')
      | Some s \<Rightarrow> Inr s)"

text \<open>
  The encoding that a client applies to \<^verbatim>\<open>email:token\<close> (\<^verbatim>\<open>btoa\<close>, RFC 4648 section 4):
  three bytes are four values of 6 bits, a last group of one or two bytes is padded
  with zero bits to two or three values; each value is written as its character, and
  \<^verbatim>\<open>=\<close> fills the last group up to four characters. It is no part of the handler and
  only states the round trip.
\<close>

definition b64_char :: "nat \<Rightarrow> char" where
  "b64_char n =
     (if n < 26 then char_of (n + 65)
      else if n < 52 then char_of (n + 71)
      else if n < 62 then char_of (n - 4)
      else if n = 62 then CHR ''+''
      else CHR ''/'')"

fun sextets :: "nat list \<Rightarrow> nat list" where
  "sextets (a # b # c # bs) =
     (a div 4) # ((a mod 4) * 16 + b div 16) # ((b mod 16) * 4 + c div 64) # (c mod 64)
     # sextets bs"
| "sextets [a, b] = [a div 4, (a mod 4) * 16 + b div 16, (b mod 16) * 4]"
| "sextets [a] = [a div 4, (a mod 4) * 16]"
| "sextets [] = []"

definition btoa :: "string \<Rightarrow> string" where
  "btoa s =
     map b64_char (sextets (map of_char s)) @ replicate ((3 - length s mod 3) mod 3) CHR ''=''"

subsection \<open>The request\<close>

text \<open>
  \<^verbatim>\<open>request.headers\<close>: the platform keeps the header fields of the request as it received
  them, each value normalised, that is without the HTTP whitespace (tab, line feed,
  carriage return, space) at its beginning and at its end, and \<^verbatim>\<open>get\<close> returns that value.
  \<open>headerList\<close> holds the fields as the client sent them and \<open>headers r name\<close> is
  \<^verbatim>\<open>request.headers.get(name)\<close>. \<^verbatim>\<open>request.cf\<close> may be absent and so may its
  \<^verbatim>\<open>connectingIp\<close>; \<^verbatim>\<open>new URL(request.url).searchParams\<close> is the list of the pairs of the
  query string in their order, and \<^verbatim>\<open>get\<close> returns the value of the first pair with the
  name.
\<close>

definition http_whitespace :: "char \<Rightarrow> bool" where
  "http_whitespace c = ((of_char c :: nat) \<in> {9, 10, 13, 32})"

definition normalize_value :: "string \<Rightarrow> string" where
  "normalize_value v = rev (dropWhile http_whitespace (rev (dropWhile http_whitespace v)))"

record CfProperties =
  connectingIp :: "string option"

record Request =
  headerList :: "string \<rightharpoonup> string"
  cf :: "CfProperties option"
  searchParams :: "(string \<times> string) list"

definition headers :: "Request \<Rightarrow> string \<rightharpoonup> string" where
  "headers request field = map_option normalize_value (headerList request field)"

definition searchParams_get :: "(string \<times> string) list \<Rightarrow> string \<Rightarrow> string option" where
  "searchParams_get ps name = map_of ps name"

subsection \<open>\<^verbatim>\<open>constructClientOptions\<close>\<close>

record ClientOptions =
  apiEmail :: string
  apiToken :: string

text \<open>\<^verbatim>\<open>const [, data] = authorization.split(' ')\<close>: the second piece, \<^verbatim>\<open>undefined\<close> when
  there is none.\<close>

fun second :: "string list \<Rightarrow> string option" where
  "second (a # d # rest) = Some d"
| "second _ = None"

definition constructClientOptions :: "Request \<Rightarrow> error + ClientOptions" where
  "constructClientOptions request =
     (case headers request ''Authorization'' of
        None \<Rightarrow> Inl (HttpError 401 ''API token missing.'')
      | Some authorization \<Rightarrow>
          if authorization = [] then Inl (HttpError 401 ''API token missing.'')
          else
            (let data = second (js_split CHR '' '' authorization)
             in case atob data of
                  Inl e \<Rightarrow> Inl e
                | Inr decoded \<Rightarrow>
                    (let index = indexOf decoded CHR '':''
                     in if index = - 1 \<or> has_control_char decoded
                        then Inl (HttpError 401 ''Invalid API key or token.'')
                        else Inr \<lparr>apiEmail = substring decoded 0 index,
                                  apiToken = substring_from decoded (index + 1)\<rparr>)))"

subsection \<open>\<^verbatim>\<open>constructDNSRecord\<close>\<close>

datatype RecordType = A | AAAA

record AddressableRecord =
  content :: string
  name :: string
  type :: RecordType
  ttl :: nat

text \<open>\<^verbatim>\<open>request.cf?.connectingIp || request.headers.get('CF-Connecting-IP')\<close>\<close>

definition clientIp :: "Request \<Rightarrow> string option" where
  "clientIp request =
     js_or (case cf request of None \<Rightarrow> None | Some c \<Rightarrow> connectingIp c)
           (headers request ''CF-Connecting-IP'')"

definition constructDNSRecord :: "Request \<Rightarrow> error + AddressableRecord" where
  \<open>constructDNSRecord request =
     (case searchParams_get (searchParams request) ''hostname'' of
        None \<Rightarrow> Inl (HttpError 422 ''The "hostname" parameter is required and cannot be empty.'')
      | Some hostname \<Rightarrow>
          if hostname = []
          then Inl (HttpError 422 ''The "hostname" parameter is required and cannot be empty.'')
          else
            (case clientIp request of
               None \<Rightarrow> Inl (HttpError 500 ''Unable to determine the client IP address.'')
             | Some ip \<Rightarrow>
                 if ip = [] then Inl (HttpError 500 ''Unable to determine the client IP address.'')
                 else Inr \<lparr>content = ip, name = hostname,
                           type = (if CHR ''.'' \<in> set ip then A else AAAA), ttl = 1\<rparr>))\<close>

subsection \<open>The provider\<close>

text \<open>
  The client of the provider (the \<^verbatim>\<open>cloudflare\<close> package) is outside the repository. Each
  of its four operations is a parameter: a function from the arguments of the call to
  what the awaited promise gives, a value or a rejection. A listed record has the fields
  of a record and the optional \<^verbatim>\<open>id\<close>, \<^verbatim>\<open>proxied\<close> and \<^verbatim>\<open>comment\<close> that \<^verbatim>\<open>update\<close> reads.
\<close>

datatype 'a awaited = Resolves 'a | Rejects string

record Zone =
  zone_id :: string

record ListedRecord = AddressableRecord +
  record_id :: "string option"
  proxied :: "bool option"
  comment :: "string option"

record RecordListParams =
  list_zone_id :: string
  list_name :: string
  list_type :: RecordType

record RecordUpdateParams =
  update_content :: string
  update_zone_id :: string
  update_name :: string
  update_type :: RecordType
  update_proxied :: bool
  update_comment :: "string option"

record Provider =
  tokens_verify :: "ClientOptions \<Rightarrow> string awaited"
  zones_list :: "ClientOptions \<Rightarrow> Zone list awaited"
  records_list :: "ClientOptions \<Rightarrow> RecordListParams \<Rightarrow> ListedRecord list awaited"
  records_update :: "ClientOptions \<Rightarrow> string \<Rightarrow> RecordUpdateParams \<Rightarrow> unit awaited"

text \<open>The calls made to the provider, in their order, are part of what \<^verbatim>\<open>update\<close> returns.\<close>

datatype Call =
  TokensVerify ClientOptions
| ZonesList ClientOptions
| RecordsList ClientOptions RecordListParams
| RecordsUpdate ClientOptions string RecordUpdateParams

definition after :: "Call \<Rightarrow> Call list \<times> 'a \<Rightarrow> Call list \<times> 'a" where
  "after c r = (c # fst r, snd r)"

subsection \<open>\<^verbatim>\<open>update\<close>\<close>

definition update :: "Provider \<Rightarrow> ClientOptions \<Rightarrow> AddressableRecord \<Rightarrow> Call list \<times> (error + Response)" where
  "update cloudflare clientOptions newRecord =
     after (TokensVerify clientOptions)
       (case tokens_verify cloudflare clientOptions of
          Rejects e \<Rightarrow> ([], Inl (Thrown e))
        | Resolves tokenStatus \<Rightarrow>
            if tokenStatus \<noteq> ''active''
            then ([], Inl (HttpError 401 (''This API Token is '' @ tokenStatus)))
            else
              after (ZonesList clientOptions)
                (case zones_list cloudflare clientOptions of
                   Rejects e \<Rightarrow> ([], Inl (Thrown e))
                 | Resolves zones \<Rightarrow>
                     if length zones > 1
                     then ([], Inl (HttpError 400 ''More than one zone was found! You must supply an API Token scoped to a single zone.''))
                     else if length zones = 0
                     then ([], Inl (HttpError 400 ''No zones found! You must supply an API Token scoped to a single zone.''))
                     else
                       (let zone = zones ! 0;
                            params = \<lparr>list_zone_id = zone_id zone, list_name = name newRecord,
                                      list_type = type newRecord\<rparr>
                        in after (RecordsList clientOptions params)
                             (case records_list cloudflare clientOptions params of
                                Rejects e \<Rightarrow> ([], Inl (Thrown e))
                              | Resolves records \<Rightarrow>
                                  if length records > 1
                                  then ([], Inl (HttpError 400 ''More than one matching record found!''))
                                  else if length records = 0 \<or> record_id (records ! 0) = None
                                  then ([], Inl (HttpError 400 ''No record found! You must first manually create the record.''))
                                  else
                                    (let currentRecord = records ! 0;
                                         proxied = (case proxied currentRecord of None \<Rightarrow> False | Some b \<Rightarrow> b);
                                         comment = comment currentRecord;
                                         ident = the (record_id (records ! 0));
                                         payload = \<lparr>update_content = content newRecord,
                                                    update_zone_id = zone_id zone,
                                                    update_name = name newRecord,
                                                    update_type = type newRecord,
                                                    update_proxied = proxied,
                                                    update_comment = comment\<rparr>
                                     in after (RecordsUpdate clientOptions ident payload)
                                          (case records_update cloudflare clientOptions ident payload of
                                             Rejects e \<Rightarrow> ([], Inl (Thrown e))
                                           | Resolves u \<Rightarrow> ([], Inr \<lparr>status = 200, body = ''OK''\<rparr>)))))))"

subsection \<open>\<^verbatim>\<open>fetch\<close>\<close>

text \<open>The \<^verbatim>\<open>catch\<close> of the handler: an \<^verbatim>\<open>HttpError\<close> gives its status and message,
  anything else status 500.\<close>

fun catch :: "error \<Rightarrow> Response" where
  "catch (HttpError code msg) = \<lparr>status = code, body = msg\<rparr>"
| "catch (Thrown e) = \<lparr>status = 500, body = ''Internal Server Error''\<rparr>"

definition fetch :: "Provider \<Rightarrow> Request \<Rightarrow> Call list \<times> Response" where
  "fetch cloudflare request =
     (case constructClientOptions request of
        Inl e \<Rightarrow> ([], catch e)
      | Inr clientOptions \<Rightarrow>
          (case constructDNSRecord request of
             Inl e \<Rightarrow> ([], catch e)
           | Inr record \<Rightarrow>
               (case update cloudflare clientOptions record of
                  (calls, Inl e) \<Rightarrow> (calls, catch e)
                | (calls, Inr response) \<Rightarrow> (calls, response))))"

section \<open>The second source file\<close>

text \<open>
  \<^verbatim>\<open>unnamed/part_000\<close> is the same handler with other messages. Its \<^verbatim>\<open>constructDNSRecord\<close>
  reads the \<^verbatim>\<open>ip\<close> parameter and only logs it, and its \<^verbatim>\<open>update\<close> tests the identifier
  of the record with \<^verbatim>\<open>!records[0].id\<close>, which an empty identifier fails too.
\<close>

definition constructClientOptions_part000 :: "Request \<Rightarrow> error + ClientOptions" where
  "constructClientOptions_part000 request =
     (case headers request ''Authorization'' of
        None \<Rightarrow> Inl (HttpError 401 ''API token missing.'')
      | Some authorization \<Rightarrow>
          if authorization = [] then Inl (HttpError 401 ''API token missing.'')
          else
            (let data = second (js_split CHR '' '' authorization)
             in case atob data of
                  Inl e \<Rightarrow> Inl e
                | Inr decoded \<Rightarrow>
                    (let index = indexOf decoded CHR '':''
                     in if index = - 1 \<or> has_control_char decoded
                        then Inl (HttpError 401 ''Invalid API key or token format in Authorization header.'')
                        else Inr \<lparr>apiEmail = substring decoded 0 index,
                                  apiToken = substring_from decoded (index + 1)\<rparr>)))"

definition constructDNSRecord_part000 :: "Request \<Rightarrow> error + AddressableRecord" where
  \<open>constructDNSRecord_part000 request =
     (let deviceIpParam = searchParams_get (searchParams request) ''ip''
      in case searchParams_get (searchParams request) ''hostname'' of
           None \<Rightarrow> Inl (HttpError 422 ''The "hostname" parameter is required and cannot be empty.'')
         | Some hostname \<Rightarrow>
             if hostname = []
             then Inl (HttpError 422 ''The "hostname" parameter is required and cannot be empty.'')
             else
               (case clientIp request of
                  None \<Rightarrow> Inl (HttpError 500 ''Unable to determine the client IP address from Cloudflare.'')
                | Some finalIp \<Rightarrow>
                    if finalIp = []
                    then Inl (HttpError 500 ''Unable to determine the client IP address from Cloudflare.'')
                    else Inr \<lparr>content = finalIp, name = hostname,
                              type = (if CHR ''.'' \<in> set finalIp then A else AAAA), ttl = 1\<rparr>))\<close>

definition update_part000 :: "Provider \<Rightarrow> ClientOptions \<Rightarrow> AddressableRecord \<Rightarrow> Call list \<times> (error + Response)" where
  "update_part000 cloudflare clientOptions newRecord =
     after (TokensVerify clientOptions)
       (case tokens_verify cloudflare clientOptions of
          Rejects e \<Rightarrow> ([], Inl (Thrown e))
        | Resolves tokenStatus \<Rightarrow>
            if tokenStatus \<noteq> ''active''
            then ([], Inl (HttpError 401 (''This API Token is '' @ tokenStatus)))
            else
              after (ZonesList clientOptions)
                (case zones_list cloudflare clientOptions of
                   Rejects e \<Rightarrow> ([], Inl (Thrown e))
                 | Resolves zones \<Rightarrow>
                     if length zones > 1
                     then ([], Inl (HttpError 400 ''More than one zone found! The API Token must be scoped to a single zone.''))
                     else if length zones = 0
                     then ([], Inl (HttpError 400 ''No zones found! The API Token must be scoped to at least one zone.''))
                     else
                       (let zone = zones ! 0;
                            params = \<lparr>list_zone_id = zone_id zone, list_name = name newRecord,
                                      list_type = type newRecord\<rparr>
                        in after (RecordsList clientOptions params)
                             (case records_list cloudflare clientOptions params of
                                Rejects e \<Rightarrow> ([], Inl (Thrown e))
                              | Resolves records \<Rightarrow>
                                  if length records > 1
                                  then ([], Inl (HttpError 400 ''More than one matching record found!''))
                                  else if length records = 0 \<or> falsy (record_id (records ! 0))
                                  then ([], Inl (HttpError 400 ''No matching record found! You must manually create the record before updating.''))
                                  else
                                    (let currentRecord = records ! 0;
                                         proxied = (case proxied currentRecord of None \<Rightarrow> False | Some b \<Rightarrow> b);
                                         comment = comment currentRecord;
                                         ident = the (record_id (records ! 0));
                                         payload = \<lparr>update_content = content newRecord,
                                                    update_zone_id = zone_id zone,
                                                    update_name = name newRecord,
                                                    update_type = type newRecord,
                                                    update_proxied = proxied,
                                                    update_comment = comment\<rparr>
                                     in after (RecordsUpdate clientOptions ident payload)
                                          (case records_update cloudflare clientOptions ident payload of
                                             Rejects e \<Rightarrow> ([], Inl (Thrown e))
                                           | Resolves u \<Rightarrow> ([], Inr \<lparr>status = 200, body = ''OK''\<rparr>)))))))"

definition fetch_part000 :: "Provider \<Rightarrow> Request \<Rightarrow> Call list \<times> Response" where
  "fetch_part000 cloudflare request =
     (case constructClientOptions_part000 request of
        Inl e \<Rightarrow> ([], catch e)
      | Inr clientOptions \<Rightarrow>
          (case constructDNSRecord_part000 request of
             Inl e \<Rightarrow> ([], catch e)
           | Inr record \<Rightarrow>
               (case update_part000 cloudflare clientOptions record of
                  (calls, Inl e) \<Rightarrow> (calls, catch e)
                | (calls, Inr response) \<Rightarrow> (calls, response))))"

section \<open>Example requests and providers\<close>

text \<open>The scenarios of the specification: the header \<^verbatim>\<open>Basic base64("a@b.com:tok123")\<close>,
  the query \<^verbatim>\<open>?hostname=home.example.com\<close>, a provider with one zone and one
  matching record.\<close>

definition example_provider :: Provider where
  "example_provider =
     \<lparr>tokens_verify = (\<lambda>opts. Resolves ''active''),
      zones_list = (\<lambda>opts. Resolves [\<lparr>zone_id = ''z1''\<rparr>]),
      records_list = (\<lambda>opts params.
        Resolves [\<lparr>content = ''192.0.2.1'', name = list_name params, type = list_type params,
                   ttl = 300, record_id = Some ''r1'', proxied = None, comment = Some ''home''\<rparr>]),
      records_update = (\<lambda>opts ident params. Resolves ())\<rparr>"

definition two_zone_provider :: Provider where
  "two_zone_provider =
     example_provider\<lparr>zones_list := (\<lambda>opts. Resolves [\<lparr>zone_id = ''z1''\<rparr>, \<lparr>zone_id = ''z2''\<rparr>])\<rparr>"

definition request_A :: Request where
  "request_A =
     \<lparr>headerList = [''Authorization'' \<mapsto> ''Basic YUBiLmNvbTp0b2sxMjM=''],
      cf = Some \<lparr>connectingIp = Some ''203.0.113.5''\<rparr>,
      searchParams = [(''hostname'', ''home.example.com'')]\<rparr>"

definition request_B :: Request where
  "request_B =
     \<lparr>headerList = [''Authorization'' \<mapsto> ''Basic YUBiLmNvbTp0b2sxMjM='',
                 ''CF-Connecting-IP'' \<mapsto> ''2001:db8::1''],
      cf = None,
      searchParams = [(''ip'', ''198.51.100.7''), (''hostname'', ''home.example.com'')]\<rparr>"

definition request_C :: Request where
  "request_C = request_A\<lparr>headerList := Map.empty\<rparr>"

definition request_D :: Request where
  "request_D = request_A\<lparr>searchParams := [(''ip'', ''198.51.100.7'')]\<rparr>"

text \<open>A header whose credentials were not encoded, and one with a payload that decodes
  to a text without \<^verbatim>\<open>:\<close>.\<close>

definition request_undecodable :: Request where
  "request_undecodable = request_A\<lparr>headerList := [''Authorization'' \<mapsto> ''Basic a@b.com:tok123'']\<rparr>"

definition request_no_colon :: Request where
  "request_no_colon = request_A\<lparr>headerList := [''Authorization'' \<mapsto> ''Basic YWJj'']\<rparr>"

text \<open>A payload that decodes to \<^verbatim>\<open>a\<close>, the character of code 1, \<^verbatim>\<open>:\<close> and \<^verbatim>\<open>b\<close>.\<close>

definition request_control :: Request where
  "request_control = request_A\<lparr>headerList := [''Authorization'' \<mapsto> ''Basic YQE6Yg=='']\<rparr>"

text \<open>A wrong scheme with text after the payload, and an empty scheme.\<close>

definition request_wrong_scheme :: Request where
  "request_wrong_scheme =
     request_A\<lparr>headerList := [''Authorization'' \<mapsto> ''Bogus YUBiLmNvbTp0b2sxMjM= and more'']\<rparr>"

definition request_empty_scheme :: Request where
  "request_empty_scheme =
     request_A\<lparr>headerList := [''Authorization'' \<mapsto> '' YUBiLmNvbTp0b2sxMjM='']\<rparr>"

text \<open>Providers with a disabled token and without a matching record.\<close>

definition inactive_provider :: Provider where
  "inactive_provider = example_provider\<lparr>tokens_verify := (\<lambda>opts. Resolves ''disabled'')\<rparr>"

definition no_record_provider :: Provider where
  "no_record_provider = example_provider\<lparr>records_list := (\<lambda>opts params. Resolves [])\<rparr>"

section \<open>Base64: decoding what was encoded\<close>

lemma b64_value_char: "n < 64 \<Longrightarrow> b64_value (b64_char n) = Some n"
  by (auto simp: b64_value_def b64_char_def Let_def)

lemma b64_value_whitespace: "ascii_whitespace c \<Longrightarrow> b64_value c = None"
  by (auto simp: b64_value_def ascii_whitespace_def Let_def)

lemma b64_value_eq: "b64_value (CHR ''='') = None"
  by (simp add: b64_value_def)


lemma sextet_bound_1: "(a::nat) < 256 \<Longrightarrow> a div 4 < 64"
  by simp

lemma sextet_bound_2: "(b::nat) < 256 \<Longrightarrow> (a mod 4) * 16 + b div 16 < 64"
proof -
  assume "b < 256"
  then have "b div 16 < 16" by simp
  moreover have "a mod 4 < 4" by simp
  then have "a mod 4 \<le> 3" by simp
  then have "(a mod 4) * 16 \<le> 48" by simp
  ultimately show ?thesis by linarith
qed
lemma sextet_bound_3: "(c::nat) < 256 \<Longrightarrow> (b mod 16) * 4 + c div 64 < 64"
proof -
  assume "c < 256"
  then have "c div 64 < 4" by simp
  moreover have "b mod 16 < 16" by simp
  then have "b mod 16 \<le> 15" by simp
  then have "(b mod 16) * 4 \<le> 60" by simp
  ultimately show ?thesis by linarith
qed
lemma sextet_bound_4: "((b::nat) mod 16) * 4 < 64"
proof -
  have "b mod 16 < 16" by simp
  then show ?thesis by linarith
qed
lemma sextet_bound_5: "((b::nat) mod 4) * 16 < 64"
proof -
  have "b mod 4 < 4" by simp
  then show ?thesis by linarith
qed

lemma byte_1: "(b::nat) < 256 \<Longrightarrow> a div 4 * 4 + ((a mod 4) * 16 + b div 16) div 16 = a"
proof -
  assume "b < 256"
  then have "b div 16 < 16" by simp
  then have "((a mod 4) * 16 + b div 16) div 16 = a mod 4" by simp
  then show ?thesis by simp
qed
lemma byte_2: "(b::nat) < 256 \<Longrightarrow> (c::nat) < 256 \<Longrightarrow> (((a mod 4) * 16 + b div 16) mod 16) * 16 + ((b mod 16) * 4 + c div 64) div 4 = b"
proof -
  assume "b < 256" and "c < 256"
  then have "c div 64 < 4" and "b div 16 < 16" by simp_all
  then have "((b mod 16) * 4 + c div 64) div 4 = b mod 16" 
    and "((a mod 4) * 16 + b div 16) mod 16 = b div 16" by simp_all
  then show ?thesis by simp
qed
lemma byte_3: "(((b::nat) mod 16) * 4 + c div 64) mod 4 * 64 + c mod 64 = c"
  if "c < 256"
proof -
  from that have "c div 64 < 4" by simp
  then have "((b mod 16) * 4 + c div 64) mod 4 = c div 64" by simp
  then show ?thesis by simp
qed
lemma byte_2_last: "(b::nat) < 256 \<Longrightarrow> (((a mod 4) * 16 + b div 16) mod 16) * 16 + ((b mod 16) * 4) div 4 = b"
  using byte_2 [of b 0 a] by simp
lemma byte_1_last: "a div 4 * 4 + ((a mod 4) * 16) div 16 = (a::nat)"
  using byte_1 [of 0 a] by simp

lemma sextets_less: "\<forall>a\<in>set bs. a < 256 \<Longrightarrow> n \<in> set (sextets bs) \<Longrightarrow> n < 64"
proof (induction bs arbitrary: n rule: sextets.induct)
  case (1 a b c bs)
  then show ?case using sextet_bound_1 [of a] sextet_bound_2 [of b a] sextet_bound_3 [of c b] by auto
next
  case (2 a b)
  then show ?case using sextet_bound_1 [of a] sextet_bound_2 [of b a] sextet_bound_4 [of b] by auto
next
  case (3 a)
  then show ?case using sextet_bound_1 [of a] sextet_bound_5 [of a] by auto
qed simp

lemma decode_sextets: "\<forall>a\<in>set bs. a < 256 \<Longrightarrow> decode_groups (sextets bs) = bs"
proof (induction bs rule: sextets.induct)
  case (1 a b c bs)
  then have "b < 256" "c < 256" and IH: "decode_groups (sextets bs) = bs" by simp_all
  then show ?case by (simp only: sextets.simps decode_groups.simps byte_1 byte_2 byte_3)
next
  case (2 a b)
  then have "b < 256" by simp
  then show ?case by (simp only: sextets.simps decode_groups.simps byte_1 byte_2_last)
next
  case (3 a)
  show ?case by (simp only: sextets.simps decode_groups.simps byte_1_last)
qed simp

lemma length_sextets: "length (sextets bs) mod 4 = (if length bs mod 3 = 0 then 0 else length bs mod 3 + 1)"
  by (induction bs rule: sextets.induct) (auto simp: mod_Suc)

lemma b64_values_chars: "\<forall>n\<in>set ns. n < 64 \<Longrightarrow> b64_values (map b64_char ns) = Some ns"
  by (induction ns) (simp_all add: b64_value_char)


lemma b64_char_not_pad: "n < 64 \<Longrightarrow> b64_char n \<noteq> CHR ''=''"
  using b64_value_char [of n] b64_value_eq by auto

lemma b64_char_not_whitespace: "n < 64 \<Longrightarrow> \<not> ascii_whitespace (b64_char n)"
  using b64_value_char [of n] b64_value_whitespace [of "b64_char n"] by auto

lemma remove_padding_body:
  assumes "CHR ''='' \<notin> set chars" and "k \<le> 2"
  shows "remove_padding (chars @ replicate k CHR ''='') = chars"
proof -
  have nopad: "remove_padding chars = chars"
    using assms(1) by (cases chars rule: rev_cases) (auto simp: remove_padding_def split: list.splits)
  from assms(2) consider "k = 0" | "k = 1" | "k = 2" by linarith
  then show ?thesis
  proof cases
    case 1
    then show ?thesis by (simp add: nopad)
  next
    case 2
    then show ?thesis using assms(1)
      by (cases chars rule: rev_cases) (auto simp: remove_padding_def split: list.splits)
  next
    case 3
    then show ?thesis
      by (simp add: remove_padding_def numeral_2_eq_2)
  qed
qed

lemma atob_btoa: "forgiving_base64_decode (btoa s) = Some s"
proof -
  define bs :: "nat list" where "bs = map of_char s"
  define chars where "chars = map b64_char (sextets bs)"
  define k where "k = (3 - length s mod 3) mod 3"
  have bytes: "\<forall>a\<in>set bs. a < 256" by (simp add: bs_def)
  have small: "\<forall>n\<in>set (sextets bs). n < 64" using sextets_less [OF bytes] by blast
  have btoa: "btoa s = chars @ replicate k CHR ''=''"
    by (simp add: btoa_def chars_def bs_def k_def)
  have nopad: "CHR ''='' \<notin> set chars"
    using small b64_char_not_pad by (fastforce simp: chars_def)
  have nows: "filter (\<lambda>c. \<not> ascii_whitespace c) (btoa s) = btoa s"
    unfolding btoa using small b64_char_not_whitespace
    by (auto simp: chars_def ascii_whitespace_def filter_id_conv)
  have k2: "k \<le> 2" by (simp add: k_def)
  have len: "length (btoa s) mod 4 = 0"
  proof -
    have "length (btoa s) mod 4 = (length (sextets bs) mod 4 + k) mod 4"
      unfolding btoa by (simp add: chars_def mod_add_left_eq)
    also have "\<dots> = ((if length s mod 3 = 0 then 0 else length s mod 3 + 1) + k) mod 4"
      by (simp add: length_sextets bs_def)
    also have "\<dots> = 0"
    proof -
      have "length s mod 3 < 3" by simp
      then consider "length s mod 3 = 0" | "length s mod 3 = 1" | "length s mod 3 = 2"
        by linarith
      then show ?thesis by cases (simp_all add: k_def)
    qed
    finally show ?thesis .
  qed
  have len1: "length chars mod 4 \<noteq> 1"
    using length_sextets [of bs] by (simp add: chars_def split: if_splits)
  have vals: "b64_values chars = Some (sextets bs)"
    unfolding chars_def using small by (rule b64_values_chars)
  have dec: "map char_of (decode_groups (sextets bs)) = s"
    using decode_sextets [OF bytes] by (simp add: bs_def)
  have "remove_padding (btoa s) = chars"
    unfolding btoa using nopad k2 by (rule remove_padding_body)
  then show ?thesis
    using len len1 vals dec nows by (simp add: forgiving_base64_decode_def Let_def)
qed

lemma btoa_no_whitespace: "c \<in> set (btoa s) \<Longrightarrow> \<not> ascii_whitespace c"
proof -
  assume "c \<in> set (btoa s)"
  then consider "c = CHR ''=''" | n where "n \<in> set (sextets (map of_char s))" and "c = b64_char n"
    by (auto simp: btoa_def)
  then show ?thesis
  proof cases
    case 1
    then show ?thesis by (simp add: ascii_whitespace_def)
  next
    case 2
    have "\<forall>a\<in>set (map of_char s). a < (256::nat)" by simp
    then have "n < 64" using 2(1) by (rule sextets_less)
    then show ?thesis using 2(2) by (simp add: b64_char_not_whitespace)
  qed
qed

section \<open>Header values\<close>

text \<open>A value that \<^verbatim>\<open>get\<close> returns neither begins nor ends with HTTP whitespace.\<close>

lemma strip_end_hd:
  assumes "rev (dropWhile P (rev u)) \<noteq> []"
  shows "hd (rev (dropWhile P (rev u))) = hd u"
proof -
  have "rev (dropWhile P (rev u)) @ rev (takeWhile P (rev u))
      = rev (takeWhile P (rev u) @ dropWhile P (rev u))"
    by (simp only: rev_append)
  also have "\<dots> = u"
    by (simp only: takeWhile_dropWhile_id rev_rev_ident)
  finally have "hd u = hd (rev (dropWhile P (rev u)) @ rev (takeWhile P (rev u)))"
    by simp
  with assms show ?thesis by simp
qed

lemma normalize_value_ends:
  assumes "normalize_value v \<noteq> []"
  shows "\<not> http_whitespace (hd (normalize_value v))"
    and "\<not> http_whitespace (last (normalize_value v))"
proof -
  let ?u = "dropWhile http_whitespace v"
  from assms have ne: "rev (dropWhile http_whitespace (rev ?u)) \<noteq> []"
    by (simp add: normalize_value_def)
  have "?u \<noteq> []"
  proof
    assume "?u = []"
    with ne show False by simp
  qed
  then have "\<not> http_whitespace (hd ?u)" by (rule hd_dropWhile)
  with strip_end_hd [OF ne] show "\<not> http_whitespace (hd (normalize_value v))"
    by (simp add: normalize_value_def)
  from ne have "dropWhile http_whitespace (rev ?u) \<noteq> []" by simp
  then have "\<not> http_whitespace (hd (dropWhile http_whitespace (rev ?u)))"
    by (rule hd_dropWhile)
  with ne show "\<not> http_whitespace (last (normalize_value v))"
    by (simp add: normalize_value_def last_rev)
qed

lemma headers_normalized:
  assumes "headers request field = Some v" and "v \<noteq> []"
  shows "\<not> http_whitespace (hd v) \<and> \<not> http_whitespace (last v)"
  using assms normalize_value_ends by (auto simp: headers_def)

lemma headers_no_leading_space:
  "headers request field \<noteq> Some (CHR '' '' # v)"
  using headers_normalized [of request field "CHR '' '' # v"]
  by (auto simp: http_whitespace_def)

section \<open>Strings and query parameters\<close>

lemma js_split_no_sep: "sep \<notin> set s \<Longrightarrow> js_split sep s = [s]"
  by (induction s) auto

lemma js_split_first: "sep \<notin> set a \<Longrightarrow> js_split sep (a @ sep # s) = a # js_split sep s"
  by (induction a) auto

lemma second_piece:
  assumes "CHR '' '' \<notin> set scheme" and "CHR '' '' \<notin> set payload"
    and "rest = [] \<or> (\<exists>t. rest = CHR '' '' # t)"
  shows "second (js_split CHR '' '' (scheme @ CHR '' '' # payload @ rest)) = Some payload"
proof -
  from assms(3) have "\<exists>ps. js_split CHR '' '' (payload @ rest) = payload # ps"
  proof
    assume "rest = []"
    then show ?thesis using assms(2) by (simp add: js_split_no_sep)
  next
    assume "\<exists>t. rest = CHR '' '' # t"
    then show ?thesis using assms(2) by (auto simp: js_split_first)
  qed
  then show ?thesis using assms(1) by (auto simp: js_split_first)
qed

lemma indexOf_ge: "- 1 \<le> indexOf s c"
  by (induction s) (auto simp: Let_def)

lemma indexOf_absent: "indexOf s c = - 1 \<longleftrightarrow> c \<notin> set s"
proof (induction s)
  case (Cons x s)
  then show ?case using indexOf_ge [of s c] by (auto simp: Let_def)
qed simp

lemma indexOf_first: "c \<notin> set a \<Longrightarrow> indexOf (a @ c # b) c = int (length a)"
  by (induction a) (auto simp: Let_def)

lemma has_control_char_iff: "has_control_char s \<longleftrightarrow> (\<exists>c\<in>set s. (of_char c :: nat) \<le> 31 \<or> (of_char c :: nat) = 127)"
  by (simp add: has_control_char_def list_ex_iff control_char_def)

lemma searchParams_get_other:
  "key \<noteq> other \<Longrightarrow>
   searchParams_get (filter (\<lambda>p. fst p \<noteq> other) ps) key = searchParams_get ps key"
  by (induction ps) (auto simp: searchParams_get_def)

lemma hostname_without_ip:
  assumes "filter (\<lambda>p. fst p \<noteq> ''ip'') ps' = filter (\<lambda>p. fst p \<noteq> ''ip'') ps"
  shows "searchParams_get ps' ''hostname'' = searchParams_get ps ''hostname''"
proof -
  have "searchParams_get ps' ''hostname'' = searchParams_get (filter (\<lambda>p. fst p \<noteq> ''ip'') ps') ''hostname''"
    by (simp add: searchParams_get_other)
  also have "\<dots> = searchParams_get ps ''hostname''"
    unfolding assms by (simp add: searchParams_get_other)
  finally show ?thesis .
qed

section \<open>The cases of \<^verbatim>\<open>update\<close>\<close>

lemma update_verify_rejects:
  "tokens_verify cloudflare opts = Rejects e \<Longrightarrow>
   update cloudflare opts newRecord = ([TokensVerify opts], Inl (Thrown e))"
  by (simp add: update_def after_def)

lemma update_not_active:
  "tokens_verify cloudflare opts = Resolves tokenStatus \<Longrightarrow> tokenStatus \<noteq> ''active'' \<Longrightarrow>
   update cloudflare opts newRecord =
     ([TokensVerify opts], Inl (HttpError 401 (''This API Token is '' @ tokenStatus)))"
  by (simp add: update_def after_def)

lemma update_zones_reject:
  "tokens_verify cloudflare opts = Resolves ''active'' \<Longrightarrow> zones_list cloudflare opts = Rejects e \<Longrightarrow>
   update cloudflare opts newRecord = ([TokensVerify opts, ZonesList opts], Inl (Thrown e))"
  by (simp add: update_def after_def)

lemma update_no_zone:
  "tokens_verify cloudflare opts = Resolves ''active'' \<Longrightarrow> zones_list cloudflare opts = Resolves [] \<Longrightarrow>
   update cloudflare opts newRecord =
     ([TokensVerify opts, ZonesList opts],
      Inl (HttpError 400 ''No zones found! You must supply an API Token scoped to a single zone.''))"
  by (simp add: update_def after_def)

lemma update_many_zones:
  "tokens_verify cloudflare opts = Resolves ''active'' \<Longrightarrow>
   zones_list cloudflare opts = Resolves zones \<Longrightarrow> 1 < length zones \<Longrightarrow>
   update cloudflare opts newRecord =
     ([TokensVerify opts, ZonesList opts],
      Inl (HttpError 400 ''More than one zone was found! You must supply an API Token scoped to a single zone.''))"
  by (simp add: update_def after_def)

lemma update_one_zone:
  assumes "tokens_verify cloudflare opts = Resolves ''active''"
    and "zones_list cloudflare opts = Resolves [zone]"
    and "params = \<lparr>list_zone_id = zone_id zone, list_name = name newRecord, list_type = type newRecord\<rparr>"
  shows "records_list cloudflare opts params = Rejects e \<Longrightarrow>
         update cloudflare opts newRecord =
           ([TokensVerify opts, ZonesList opts, RecordsList opts params], Inl (Thrown e))"
    and "records_list cloudflare opts params = Resolves [] \<Longrightarrow>
         update cloudflare opts newRecord =
           ([TokensVerify opts, ZonesList opts, RecordsList opts params],
            Inl (HttpError 400 ''No record found! You must first manually create the record.''))"
    and "records_list cloudflare opts params = Resolves records \<Longrightarrow> 1 < length records \<Longrightarrow>
         update cloudflare opts newRecord =
           ([TokensVerify opts, ZonesList opts, RecordsList opts params],
            Inl (HttpError 400 ''More than one matching record found!''))"
    and "records_list cloudflare opts params = Resolves [current] \<Longrightarrow> record_id current = None \<Longrightarrow>
         update cloudflare opts newRecord =
           ([TokensVerify opts, ZonesList opts, RecordsList opts params],
            Inl (HttpError 400 ''No record found! You must first manually create the record.''))"
    and "records_list cloudflare opts params = Resolves [current] \<Longrightarrow> record_id current = Some ident \<Longrightarrow>
         payload = \<lparr>update_content = content newRecord, update_zone_id = zone_id zone,
                    update_name = name newRecord, update_type = type newRecord,
                    update_proxied = (case proxied current of None \<Rightarrow> False | Some b \<Rightarrow> b),
                    update_comment = comment current\<rparr> \<Longrightarrow>
         update cloudflare opts newRecord =
           ([TokensVerify opts, ZonesList opts, RecordsList opts params,
             RecordsUpdate opts ident payload],
            case records_update cloudflare opts ident payload of
              Rejects e \<Rightarrow> Inl (Thrown e)
            | Resolves u \<Rightarrow> Inr \<lparr>status = 200, body = ''OK''\<rparr>)"
  using assms by (simp_all add: update_def after_def Let_def split: awaited.splits)


lemma update_cases [case_names verify_rejects not_active zones_reject no_zone many_zones
    records_reject no_record many_records no_identifier identified]:
  obtains e where "tokens_verify cloudflare opts = Rejects e"
  | tokenStatus where "tokens_verify cloudflare opts = Resolves tokenStatus" and "tokenStatus \<noteq> ''active''"
  | e where "tokens_verify cloudflare opts = Resolves ''active''"
      and "zones_list cloudflare opts = Rejects e"
  | "tokens_verify cloudflare opts = Resolves ''active''" and "zones_list cloudflare opts = Resolves []"
  | zones where "tokens_verify cloudflare opts = Resolves ''active''"
      and "zones_list cloudflare opts = Resolves zones" and "1 < length zones"
  | zone e where "tokens_verify cloudflare opts = Resolves ''active''"
      and "zones_list cloudflare opts = Resolves [zone]"
      and "records_list cloudflare opts
             \<lparr>list_zone_id = zone_id zone, list_name = name newRecord, list_type = type newRecord\<rparr>
           = Rejects e"
  | zone where "tokens_verify cloudflare opts = Resolves ''active''"
      and "zones_list cloudflare opts = Resolves [zone]"
      and "records_list cloudflare opts
             \<lparr>list_zone_id = zone_id zone, list_name = name newRecord, list_type = type newRecord\<rparr>
           = Resolves []"
  | zone records where "tokens_verify cloudflare opts = Resolves ''active''"
      and "zones_list cloudflare opts = Resolves [zone]"
      and "records_list cloudflare opts
             \<lparr>list_zone_id = zone_id zone, list_name = name newRecord, list_type = type newRecord\<rparr>
           = Resolves records" and "1 < length records"
  | zone current where "tokens_verify cloudflare opts = Resolves ''active''"
      and "zones_list cloudflare opts = Resolves [zone]"
      and "records_list cloudflare opts
             \<lparr>list_zone_id = zone_id zone, list_name = name newRecord, list_type = type newRecord\<rparr>
           = Resolves [current]" and "record_id current = None"
  | zone current ident where "tokens_verify cloudflare opts = Resolves ''active''"
      and "zones_list cloudflare opts = Resolves [zone]"
      and "records_list cloudflare opts
             \<lparr>list_zone_id = zone_id zone, list_name = name newRecord, list_type = type newRecord\<rparr>
           = Resolves [current]" and "record_id current = Some ident"
proof (cases "tokens_verify cloudflare opts")
  case (Rejects e)
  then show ?thesis using that(1) by blast
next
  case verify: (Resolves tokenStatus)
  show ?thesis
  proof (cases "tokenStatus = ''active''")
    case False
    with verify show ?thesis using that(2) by blast
  next
    case True
    with verify have active: "tokens_verify cloudflare opts = Resolves ''active''" by simp
    show ?thesis
    proof (cases "zones_list cloudflare opts")
      case (Rejects e)
      with active show ?thesis using that(3) by blast
    next
      case zones: (Resolves zones)
      consider "zones = []" | "1 < length zones" | zone where "zones = [zone]"
        by (cases zones rule: list.exhaust; cases "tl zones") auto
      then show ?thesis
      proof cases
        case 1
        with active zones show ?thesis using that(4) by blast
      next
        case 2
        with active zones show ?thesis using that(5) by blast
      next
        case 3
        with zones have one: "zones_list cloudflare opts = Resolves [zone]" by simp
        let ?params = "\<lparr>list_zone_id = zone_id zone, list_name = name newRecord, list_type = type newRecord\<rparr>"
        show ?thesis
        proof (cases "records_list cloudflare opts ?params")
          case (Rejects e)
          with active one show ?thesis using that(6) by blast
        next
          case records: (Resolves records)
          consider "records = []" | "1 < length records" | current where "records = [current]"
            by (cases records rule: list.exhaust; cases "tl records") auto
          then show ?thesis
          proof cases
            case 1
            with active one records show ?thesis using that(7) by blast
          next
            case 2
            with active one records show ?thesis using that(8) by blast
          next
            case 3
            with records have r: "records_list cloudflare opts ?params = Resolves [current]" by simp
            show ?thesis
            proof (cases "record_id current")
              case None
              with active one r show ?thesis using that(9) by blast
            next
              case (Some ident)
              with active one r show ?thesis using that(10) by blast
            qed
          qed
        qed
      qed
    qed
  qed
qed


lemma fetch_calls:
  "fst (fetch cloudflare request) =
     (case constructClientOptions request of
        Inl e \<Rightarrow> []
      | Inr opts \<Rightarrow>
          (case constructDNSRecord request of
             Inl e \<Rightarrow> []
           | Inr record \<Rightarrow> fst (update cloudflare opts record)))"
  by (simp add: fetch_def split: sum.splits prod.splits)

section \<open>The credentials of a payload\<close>

lemma split_first:
  assumes "c \<in> set s"
  shows "substring s 0 (indexOf s c) = takeWhile (\<lambda>x. x \<noteq> c) s"
    and "substring_from s (indexOf s c + 1) = tl (dropWhile (\<lambda>x. x \<noteq> c) s)"
proof -
  from assms obtain a b where s: "s = a @ c # b" and a: "c \<notin> set a"
    by (auto dest: split_list_first)
  have len: "nat (int (length a) + 1) = Suc (length a)" by linarith
  from a have "takeWhile (\<lambda>x. x \<noteq> c) s = a" and "dropWhile (\<lambda>x. x \<noteq> c) s = c # b"
    unfolding s by (induction a) auto
  moreover have "substring s 0 (indexOf s c) = a"
    unfolding s using a by (simp add: indexOf_first substring_def)
  moreover have "substring_from s (indexOf s c + 1) = b"
    unfolding s using a len by (simp add: indexOf_first substring_from_def)
  ultimately show "substring s 0 (indexOf s c) = takeWhile (\<lambda>x. x \<noteq> c) s"
    and "substring_from s (indexOf s c + 1) = tl (dropWhile (\<lambda>x. x \<noteq> c) s)"
    by simp_all
qed

lemma options_of_payload:
  assumes "CHR '' '' \<notin> set scheme" and "CHR '' '' \<notin> set payload"
    and "rest = [] \<or> (\<exists>t. rest = CHR '' '' # t)"
    and "headers request ''Authorization'' = Some (scheme @ '' '' @ payload @ rest)"
  shows "constructClientOptions request =
           (case atob (Some payload) of
              Inl e \<Rightarrow> Inl e
            | Inr decoded \<Rightarrow>
                if CHR '':'' \<notin> set decoded \<or> has_control_char decoded
                then Inl (HttpError 401 ''Invalid API key or token.'')
                else Inr \<lparr>apiEmail = takeWhile (\<lambda>c. c \<noteq> CHR '':'') decoded,
                          apiToken = tl (dropWhile (\<lambda>c. c \<noteq> CHR '':'') decoded)\<rparr>)"
    and "constructClientOptions_part000 request =
           (case atob (Some payload) of
              Inl e \<Rightarrow> Inl e
            | Inr decoded \<Rightarrow>
                if CHR '':'' \<notin> set decoded \<or> has_control_char decoded
                then Inl (HttpError 401 ''Invalid API key or token format in Authorization header.'')
                else Inr \<lparr>apiEmail = takeWhile (\<lambda>c. c \<noteq> CHR '':'') decoded,
                          apiToken = tl (dropWhile (\<lambda>c. c \<noteq> CHR '':'') decoded)\<rparr>)"
proof -
  have data: "second (js_split CHR '' '' (scheme @ '' '' @ payload @ rest)) = Some payload"
    using second_piece [OF assms(1-3)] by simp
  show "constructClientOptions request =
           (case atob (Some payload) of
              Inl e \<Rightarrow> Inl e
            | Inr decoded \<Rightarrow>
                if CHR '':'' \<notin> set decoded \<or> has_control_char decoded
                then Inl (HttpError 401 ''Invalid API key or token.'')
                else Inr \<lparr>apiEmail = takeWhile (\<lambda>c. c \<noteq> CHR '':'') decoded,
                          apiToken = tl (dropWhile (\<lambda>c. c \<noteq> CHR '':'') decoded)\<rparr>)"
    using assms(4) data
    by (auto simp: constructClientOptions_def Let_def indexOf_absent split_first split: sum.splits)
  show "constructClientOptions_part000 request =
           (case atob (Some payload) of
              Inl e \<Rightarrow> Inl e
            | Inr decoded \<Rightarrow>
                if CHR '':'' \<notin> set decoded \<or> has_control_char decoded
                then Inl (HttpError 401 ''Invalid API key or token format in Authorization header.'')
                else Inr \<lparr>apiEmail = takeWhile (\<lambda>c. c \<noteq> CHR '':'') decoded,
                          apiToken = tl (dropWhile (\<lambda>c. c \<noteq> CHR '':'') decoded)\<rparr>)"
    using assms(4) data
    by (auto simp: constructClientOptions_part000_def Let_def indexOf_absent split_first split: sum.splits)
qed

section \<open>The examples, evaluated\<close>

lemma header_A:
  "headers request_A ''Authorization'' = Some ''Basic YUBiLmNvbTp0b2sxMjM=''"
  "headers request_A ''CF-Connecting-IP'' = None"
  by (simp_all add: headers_def normalize_value_def http_whitespace_def request_A_def)

lemma header_B:
  "headers request_B ''CF-Connecting-IP'' = Some ''2001:db8::1''"
  by (simp add: headers_def normalize_value_def http_whitespace_def request_B_def)

lemma header_C:
  "headers request_C ''Authorization'' = None"
  by (simp add: headers_def request_C_def)

lemma header_undecodable:
  "headers request_undecodable ''Authorization'' = Some ''Basic a@b.com:tok123''"
  by (simp add: headers_def normalize_value_def http_whitespace_def request_undecodable_def)

lemma header_no_colon:
  "headers request_no_colon ''Authorization'' = Some ''Basic YWJj''"
  by (simp add: headers_def normalize_value_def http_whitespace_def request_no_colon_def)

lemma header_control:
  "headers request_control ''Authorization'' = Some ''Basic YQE6Yg==''"
  by (simp add: headers_def normalize_value_def http_whitespace_def request_control_def)

lemma header_wrong_scheme:
  "headers request_wrong_scheme ''Authorization'' = Some ''Bogus YUBiLmNvbTp0b2sxMjM= and more''"
  by (simp add: headers_def normalize_value_def http_whitespace_def request_wrong_scheme_def)

lemma header_empty_scheme:
  "headers request_empty_scheme ''Authorization'' = Some ''YUBiLmNvbTp0b2sxMjM=''"
  by (simp add: headers_def normalize_value_def http_whitespace_def request_empty_scheme_def)

lemma options_empty_scheme:
  "constructClientOptions request_empty_scheme = Inl (Thrown ''InvalidCharacterError'')"
  "constructClientOptions_part000 request_empty_scheme = Inl (Thrown ''InvalidCharacterError'')"
  by code_simp+

lemma options_A:
  "constructClientOptions request_A = Inr \<lparr>apiEmail = ''a@b.com'', apiToken = ''tok123''\<rparr>"
  by code_simp

lemma record_A:
  "constructDNSRecord request_A =
     Inr \<lparr>content = ''203.0.113.5'', name = ''home.example.com'', type = A, ttl = 1\<rparr>"
  by code_simp

lemma record_B:
  "constructDNSRecord request_B =
     Inr \<lparr>content = ''2001:db8::1'', name = ''home.example.com'', type = AAAA, ttl = 1\<rparr>"
  by code_simp

lemma options_undecodable:
  "constructClientOptions request_undecodable = Inl (Thrown ''InvalidCharacterError'')"
  by code_simp

lemma options_no_colon:
  "atob (second (js_split CHR '' '' ''Basic YWJj'')) = Inr ''abc''"
  by code_simp

lemma options_control:
  "atob (second (js_split CHR '' '' ''Basic YQE6Yg=='')) = Inr [CHR ''a'', CHR 0x01, CHR '':'', CHR ''b'']"
  by code_simp

lemma btoa_example: "btoa ''a@b.com:tok123'' = ''YUBiLmNvbTp0b2sxMjM=''"
  by code_simp

lemma fetch_example_A:
  "fetch example_provider request_A =
     ([TokensVerify \<lparr>apiEmail = ''a@b.com'', apiToken = ''tok123''\<rparr>,
       ZonesList \<lparr>apiEmail = ''a@b.com'', apiToken = ''tok123''\<rparr>,
       RecordsList \<lparr>apiEmail = ''a@b.com'', apiToken = ''tok123''\<rparr>
         \<lparr>list_zone_id = ''z1'', list_name = ''home.example.com'', list_type = A\<rparr>,
       RecordsUpdate \<lparr>apiEmail = ''a@b.com'', apiToken = ''tok123''\<rparr> ''r1''
         \<lparr>update_content = ''203.0.113.5'', update_zone_id = ''z1'',
          update_name = ''home.example.com'', update_type = A,
          update_proxied = False, update_comment = Some ''home''\<rparr>],
      \<lparr>status = 200, body = ''OK''\<rparr>)"
  by (simp add: fetch_def options_A record_A update_def after_def example_provider_def)

section \<open>The claims\<close>

text \<open>
  C1. The \<^verbatim>\<open>content\<close> of the constructed record is the connecting address that the
  platform gives, or else the value of the \<^verbatim>\<open>CF-Connecting-IP\<close> header, and the \<^verbatim>\<open>ip\<close>
  parameter of the query has no influence: two requests that differ only in their \<^verbatim>\<open>ip\<close>
  parameters give the same record, the same calls to the provider with the same
  arguments, and the same response, in both source files.
\<close>

theorem C1_ip_parameter_ignored:
  assumes "filter (\<lambda>p. fst p \<noteq> ''ip'') ps' = filter (\<lambda>p. fst p \<noteq> ''ip'') (searchParams request)"
  shows "constructDNSRecord (request\<lparr>searchParams := ps'\<rparr>) = constructDNSRecord request
       \<and> fetch cloudflare (request\<lparr>searchParams := ps'\<rparr>) = fetch cloudflare request
       \<and> constructDNSRecord_part000 (request\<lparr>searchParams := ps'\<rparr>) = constructDNSRecord_part000 request
       \<and> fetch_part000 cloudflare (request\<lparr>searchParams := ps'\<rparr>) = fetch_part000 cloudflare request
       \<and> (\<forall>record. constructDNSRecord request = Inr record \<or> constructDNSRecord_part000 request = Inr record \<longrightarrow>
            (let platform = (case cf request of None \<Rightarrow> None | Some c \<Rightarrow> connectingIp c)
             in if platform = None \<or> platform = Some []
                then headers request ''CF-Connecting-IP'' = Some (content record)
                else platform = Some (content record)))"
proof -
  let ?r = "request\<lparr>searchParams := ps'\<rparr>"
  have host: "searchParams_get (searchParams ?r) ''hostname'' = searchParams_get (searchParams request) ''hostname''"
    using hostname_without_ip [OF assms] by simp
  have ip: "clientIp ?r = clientIp request"
    by (simp add: clientIp_def headers_def)
  have rec: "constructDNSRecord ?r = constructDNSRecord request"
    unfolding constructDNSRecord_def host ip ..
  have rec0: "constructDNSRecord_part000 ?r = constructDNSRecord_part000 request"
    unfolding constructDNSRecord_part000_def host ip Let_def ..
  have opts: "constructClientOptions ?r = constructClientOptions request"
    by (simp add: constructClientOptions_def headers_def)
  have opts0: "constructClientOptions_part000 ?r = constructClientOptions_part000 request"
    by (simp add: constructClientOptions_part000_def headers_def)
  have f: "fetch cloudflare ?r = fetch cloudflare request"
    unfolding fetch_def rec opts ..
  have f0: "fetch_part000 cloudflare ?r = fetch_part000 cloudflare request"
    unfolding fetch_part000_def rec0 opts0 ..
  have c: "\<forall>record. constructDNSRecord request = Inr record \<or> constructDNSRecord_part000 request = Inr record \<longrightarrow>
            (let platform = (case cf request of None \<Rightarrow> None | Some c \<Rightarrow> connectingIp c)
             in if platform = None \<or> platform = Some []
                then headers request ''CF-Connecting-IP'' = Some (content record)
                else platform = Some (content record))"
    by (auto simp: constructDNSRecord_def constructDNSRecord_part000_def clientIp_def js_or_def Let_def
          split: option.splits if_splits)
  from rec rec0 f f0 c show ?thesis by blast
qed

theorem C1_witness:
  "fetch example_provider
     (request_B\<lparr>searchParams := [(''hostname'', ''home.example.com''), (''ip'', ''203.0.113.99'')]\<rparr>)
   = fetch example_provider request_B
   \<and> (\<exists>record. constructDNSRecord request_B = Inr record \<and> content record = ''2001:db8::1'')"
proof -
  have same: "filter (\<lambda>p. fst p \<noteq> ''ip'') [(''hostname'', ''home.example.com''), (''ip'', ''203.0.113.99'')]
      = filter (\<lambda>p. fst p \<noteq> ''ip'') (searchParams request_B)"
    by (simp add: request_B_def)
  show ?thesis
    using C1_ip_parameter_ignored [OF same, of example_provider] record_B header_B
    by (simp add: request_B_def)
qed

text \<open>
  C2. The update operation of the provider is called only after every step before it
  succeeded: the credentials were extracted and the record built, the token is
  \<^verbatim>\<open>active\<close>, the listing of the zones gave exactly one zone and the listing of the
  records exactly one record with an identifier. A step that fails ends the calls: no
  call at all when the credentials or the record fail (so none without an
  \<^verbatim>\<open>Authorization\<close> header), only the verification when the token is not active, no
  listing of records and no update when the zones are not exactly one, and no update
  when the records are not exactly one with an identifier.
\<close>

theorem C2_update_only_after_every_step:
  "(\<forall>opts ident payload.
      RecordsUpdate opts ident payload \<in> set (fst (fetch cloudflare request)) \<longrightarrow>
      (\<exists>record zone current.
         constructClientOptions request = Inr opts \<and>
         constructDNSRecord request = Inr record \<and>
         tokens_verify cloudflare opts = Resolves ''active'' \<and>
         zones_list cloudflare opts = Resolves [zone] \<and>
         records_list cloudflare opts
           \<lparr>list_zone_id = zone_id zone, list_name = name record, list_type = type record\<rparr>
           = Resolves [current] \<and>
         record_id current = Some ident))
   \<and> (headers request ''Authorization'' = None \<longrightarrow> fst (fetch cloudflare request) = [])
   \<and> (\<forall>e. constructClientOptions request = Inl e \<or> constructDNSRecord request = Inl e \<longrightarrow>
          fst (fetch cloudflare request) = [])
   \<and> (\<forall>opts record.
         constructClientOptions request = Inr opts \<and> constructDNSRecord request = Inr record \<longrightarrow>
         (tokens_verify cloudflare opts \<noteq> Resolves ''active'' \<longrightarrow>
            fst (fetch cloudflare request) = [TokensVerify opts]) \<and>
         (tokens_verify cloudflare opts = Resolves ''active'' \<and>
          (\<forall>zone. zones_list cloudflare opts \<noteq> Resolves [zone]) \<longrightarrow>
            fst (fetch cloudflare request) = [TokensVerify opts, ZonesList opts]) \<and>
         (\<forall>zone. tokens_verify cloudflare opts = Resolves ''active'' \<and>
            zones_list cloudflare opts = Resolves [zone] \<and>
            (\<forall>current ident.
               records_list cloudflare opts
                 \<lparr>list_zone_id = zone_id zone, list_name = name record, list_type = type record\<rparr>
                 = Resolves [current] \<longrightarrow> record_id current \<noteq> Some ident) \<longrightarrow>
            fst (fetch cloudflare request) =
              [TokensVerify opts, ZonesList opts,
               RecordsList opts
                 \<lparr>list_zone_id = zone_id zone, list_name = name record, list_type = type record\<rparr>]))"
proof (cases "constructClientOptions request")
  case (Inl e)
  then show ?thesis
    by (auto simp: fetch_calls)
next
  case opts: (Inr opts)
  have none: "headers request ''Authorization'' \<noteq> None"
    using opts by (auto simp: constructClientOptions_def split: option.splits)
  show ?thesis
  proof (cases "constructDNSRecord request")
    case (Inl e)
    with opts none show ?thesis by (auto simp: fetch_calls)
  next
    case built: (Inr newRecord)
    have calls: "fst (fetch cloudflare request) = fst (update cloudflare opts newRecord)"
      using opts built by (simp add: fetch_calls)
    show ?thesis
    proof (cases rule: update_cases [where cloudflare = cloudflare and opts = opts and newRecord = newRecord])
      case (verify_rejects e)
      then show ?thesis using opts built none calls by (simp add: update_verify_rejects)
    next
      case (not_active tokenStatus)
      then show ?thesis using opts built none calls by (simp add: update_not_active)
    next
      case (zones_reject e)
      then show ?thesis using opts built none calls by (simp add: update_zones_reject)
    next
      case no_zone
      then show ?thesis using opts built none calls by (simp add: update_no_zone)
    next
      case (many_zones zones)
      then show ?thesis using opts built none calls by (auto simp add: update_many_zones)
    next
      case (records_reject zone e)
      then show ?thesis using opts built none calls by (simp add: update_one_zone(1))
    next
      case (no_record zone)
      then show ?thesis using opts built none calls by (simp add: update_one_zone(2))
    next
      case (many_records zone records)
      then show ?thesis using opts built none calls by (auto simp add: update_one_zone(3))
    next
      case (no_identifier zone current)
      then show ?thesis using opts built none calls by (simp add: update_one_zone(4))
    next
      case (identified zone current ident)
      then show ?thesis using opts built none calls by (simp add: update_one_zone(5))
    qed
  qed
qed


theorem C2_witness:
  "(\<exists>ident payload. RecordsUpdate \<lparr>apiEmail = ''a@b.com'', apiToken = ''tok123''\<rparr> ident payload
       \<in> set (fst (fetch example_provider request_A)))
   \<and> tokens_verify example_provider \<lparr>apiEmail = ''a@b.com'', apiToken = ''tok123''\<rparr> = Resolves ''active''
   \<and> headers request_C ''Authorization'' = None
   \<and> fst (fetch example_provider request_C) = []
   \<and> fst (fetch example_provider request_D) = []
   \<and> fst (fetch inactive_provider request_A)
       = [TokensVerify \<lparr>apiEmail = ''a@b.com'', apiToken = ''tok123''\<rparr>]
   \<and> fst (fetch two_zone_provider request_A)
       = [TokensVerify \<lparr>apiEmail = ''a@b.com'', apiToken = ''tok123''\<rparr>,
          ZonesList \<lparr>apiEmail = ''a@b.com'', apiToken = ''tok123''\<rparr>]
   \<and> fst (fetch no_record_provider request_A)
       = [TokensVerify \<lparr>apiEmail = ''a@b.com'', apiToken = ''tok123''\<rparr>,
          ZonesList \<lparr>apiEmail = ''a@b.com'', apiToken = ''tok123''\<rparr>,
          RecordsList \<lparr>apiEmail = ''a@b.com'', apiToken = ''tok123''\<rparr>
            \<lparr>list_zone_id = ''z1'', list_name = ''home.example.com'', list_type = A\<rparr>]"
proof -
  let ?opts = "\<lparr>apiEmail = ''a@b.com'', apiToken = ''tok123''\<rparr>"
  let ?target = "\<lparr>content = ''203.0.113.5'', name = ''home.example.com'', type = A, ttl = 1\<rparr>"
  have called: "RecordsUpdate ?opts ''r1''
         \<lparr>update_content = ''203.0.113.5'', update_zone_id = ''z1'',
          update_name = ''home.example.com'', update_type = A,
          update_proxied = False, update_comment = Some ''home''\<rparr>
       \<in> set (fst (fetch example_provider request_A))"
    by (simp add: fetch_example_A)
  have missing: "headers request_C ''Authorization'' = None"
    by (rule header_C)
  have nohost: "constructDNSRecord request_D
      = Inl (HttpError 422 ''The \"hostname\" parameter is required and cannot be empty.'')"
    by (simp add: constructDNSRecord_def request_D_def searchParams_get_def)
  have inactive: "tokens_verify inactive_provider ?opts \<noteq> Resolves ''active''"
    by (simp add: inactive_provider_def)
  have two: "tokens_verify two_zone_provider ?opts = Resolves ''active''"
    "\<forall>zone. zones_list two_zone_provider ?opts \<noteq> Resolves [zone]"
    by (simp_all add: two_zone_provider_def example_provider_def)
  have none: "tokens_verify no_record_provider ?opts = Resolves ''active''"
    "zones_list no_record_provider ?opts = Resolves [\<lparr>zone_id = ''z1''\<rparr>]"
    "\<forall>current ident.
       records_list no_record_provider ?opts
         \<lparr>list_zone_id = zone_id \<lparr>zone_id = ''z1''\<rparr>, list_name = name ?target, list_type = type ?target\<rparr>
         = Resolves [current] \<longrightarrow> record_id current \<noteq> Some ident"
    by (simp_all add: no_record_provider_def example_provider_def)
  note A = C2_update_only_after_every_step [of example_provider request_A]
  note C = C2_update_only_after_every_step [of example_provider request_C]
  note D = C2_update_only_after_every_step [of example_provider request_D]
  note I = C2_update_only_after_every_step [of inactive_provider request_A]
  note Z = C2_update_only_after_every_step [of two_zone_provider request_A]
  note N = C2_update_only_after_every_step [of no_record_provider request_A]
  from A called have "\<exists>record zone current.
         constructClientOptions request_A = Inr ?opts \<and>
         constructDNSRecord request_A = Inr record \<and>
         tokens_verify example_provider ?opts = Resolves ''active'' \<and>
         zones_list example_provider ?opts = Resolves [zone] \<and>
         records_list example_provider ?opts
           \<lparr>list_zone_id = zone_id zone, list_name = name record, list_type = type record\<rparr>
           = Resolves [current] \<and>
         record_id current = Some ''r1''"
    by blast
  then have active: "tokens_verify example_provider ?opts = Resolves ''active''"
    by blast
  from C missing have quiet: "fst (fetch example_provider request_C) = []"
    by blast
  from D nohost have quiet': "fst (fetch example_provider request_D) = []"
    by blast
  from I have "constructClientOptions request_A = Inr ?opts \<and>
      constructDNSRecord request_A = Inr ?target \<longrightarrow>
      (tokens_verify inactive_provider ?opts \<noteq> Resolves ''active'' \<longrightarrow>
       fst (fetch inactive_provider request_A) = [TokensVerify ?opts])"
    by blast
  with options_A record_A inactive
  have verify: "fst (fetch inactive_provider request_A) = [TokensVerify ?opts]"
    by blast
  from Z have "constructClientOptions request_A = Inr ?opts \<and>
      constructDNSRecord request_A = Inr ?target \<longrightarrow>
      (tokens_verify two_zone_provider ?opts = Resolves ''active'' \<and>
       (\<forall>zone. zones_list two_zone_provider ?opts \<noteq> Resolves [zone]) \<longrightarrow>
       fst (fetch two_zone_provider request_A) = [TokensVerify ?opts, ZonesList ?opts])"
    by blast
  with options_A record_A two
  have zones: "fst (fetch two_zone_provider request_A) = [TokensVerify ?opts, ZonesList ?opts]"
    by blast
  from N have "constructClientOptions request_A = Inr ?opts \<and>
      constructDNSRecord request_A = Inr ?target \<longrightarrow>
      (tokens_verify no_record_provider ?opts = Resolves ''active'' \<and>
       zones_list no_record_provider ?opts = Resolves [\<lparr>zone_id = ''z1''\<rparr>] \<and>
       (\<forall>current ident.
          records_list no_record_provider ?opts
            \<lparr>list_zone_id = zone_id \<lparr>zone_id = ''z1''\<rparr>, list_name = name ?target, list_type = type ?target\<rparr>
            = Resolves [current] \<longrightarrow> record_id current \<noteq> Some ident) \<longrightarrow>
       fst (fetch no_record_provider request_A) =
         [TokensVerify ?opts, ZonesList ?opts,
          RecordsList ?opts
            \<lparr>list_zone_id = zone_id \<lparr>zone_id = ''z1''\<rparr>, list_name = name ?target, list_type = type ?target\<rparr>])"
    by blast
  with options_A record_A none
  have "fst (fetch no_record_provider request_A) =
         [TokensVerify ?opts, ZonesList ?opts,
          RecordsList ?opts
            \<lparr>list_zone_id = zone_id \<lparr>zone_id = ''z1''\<rparr>, list_name = name ?target, list_type = type ?target\<rparr>]"
    by blast
  then have records: "fst (fetch no_record_provider request_A) =
         [TokensVerify ?opts, ZonesList ?opts,
          RecordsList ?opts \<lparr>list_zone_id = ''z1'', list_name = ''home.example.com'', list_type = A\<rparr>]"
    by simp
  from called active missing quiet quiet' verify zones records show ?thesis
    by blast
qed




text \<open>
  C4 (corrected). The claim: a payload of the \<^verbatim>\<open>Authorization\<close> header that \<^verbatim>\<open>atob\<close> cannot
  decode gives a response with status 401. The handler does not catch what \<^verbatim>\<open>atob\<close>
  throws inside \<^verbatim>\<open>constructClientOptions\<close>; it is no \<^verbatim>\<open>HttpError\<close>, and the \<^verbatim>\<open>catch\<close> of
  \<^verbatim>\<open>fetch\<close> answers it with status 500. The header \<^verbatim>\<open>Basic a@b.com:tok123\<close>, whose
  credentials were not encoded, is an example.
\<close>

theorem C4_counterexample:
  "constructClientOptions request_undecodable = Inl (Thrown ''InvalidCharacterError'')
   \<and> fetch example_provider request_undecodable
       = ([], \<lparr>status = 500, body = ''Internal Server Error''\<rparr>)
   \<and> status (snd (fetch example_provider request_undecodable)) \<noteq> 401"
  by (simp add: fetch_def options_undecodable)

text \<open>
  C4 as amended. When the header is present and not empty and \<^verbatim>\<open>atob\<close> fails on its
  second piece (or on \<^verbatim>\<open>undefined\<close>, when there is no second piece), the credential
  extractor throws the \<^verbatim>\<open>InvalidCharacterError\<close>, no \<^verbatim>\<open>HttpError\<close>; the handler makes no call
  to the provider and responds with status 500 and the body \<^verbatim>\<open>Internal Server Error\<close>.
\<close>

theorem C4_decode_failure_is_500:
  assumes "headers request ''Authorization'' = Some authorization" and "authorization \<noteq> []"
    and "atob (second (js_split CHR '' '' authorization)) = Inl e"
  shows "e = Thrown ''InvalidCharacterError''
       \<and> constructClientOptions request = Inl (Thrown ''InvalidCharacterError'')
       \<and> fetch cloudflare request = ([], \<lparr>status = 500, body = ''Internal Server Error''\<rparr>)"
proof -
  from assms(3) have e: "e = Thrown ''InvalidCharacterError''"
    by (auto simp: atob_def split: option.splits)
  with assms have "constructClientOptions request = Inl (Thrown ''InvalidCharacterError'')"
    by (simp add: constructClientOptions_def)
  with e show ?thesis by (simp add: fetch_def)
qed

theorem C4_witness:
  "headers request_undecodable ''Authorization'' = Some ''Basic a@b.com:tok123''
   \<and> atob (second (js_split CHR '' '' ''Basic a@b.com:tok123'')) = Inl (Thrown ''InvalidCharacterError'')
   \<and> fetch two_zone_provider request_undecodable
       = ([], \<lparr>status = 500, body = ''Internal Server Error''\<rparr>)"
proof -
  have h: "headers request_undecodable ''Authorization'' = Some ''Basic a@b.com:tok123''"
    by (rule header_undecodable)
  have a: "atob (second (js_split CHR '' '' ''Basic a@b.com:tok123'')) = Inl (Thrown ''InvalidCharacterError'')"
    by code_simp
  show ?thesis
    using C4_decode_failure_is_500 [OF h _ a, of two_zone_provider] h a by simp
qed

text \<open>
  C5. \<^verbatim>\<open>update\<close> fails with status 400 exactly when the token is active and the listing of
  the zones gives no zone or more than one, or gives one zone and the listing of its
  records gives no record, more than one, or one record without identifier; and then
  it has not called the update operation.
\<close>

theorem C5_config_errors:
  "((\<exists>msg. snd (update cloudflare opts newRecord) = Inl (HttpError 400 msg)) \<longleftrightarrow>
      tokens_verify cloudflare opts = Resolves ''active'' \<and>
      (\<exists>zones. zones_list cloudflare opts = Resolves zones \<and>
         (length zones = 0 \<or> 1 < length zones \<or>
          (\<exists>zone records. zones = [zone] \<and>
             records_list cloudflare opts
               \<lparr>list_zone_id = zone_id zone, list_name = name newRecord, list_type = type newRecord\<rparr>
               = Resolves records \<and>
             (length records = 0 \<or> 1 < length records \<or>
              (\<exists>current. records = [current] \<and> record_id current = None))))))
   \<and> ((\<exists>msg. snd (update cloudflare opts newRecord) = Inl (HttpError 400 msg)) \<longrightarrow>
        (\<forall>opts' ident payload.
           RecordsUpdate opts' ident payload \<notin> set (fst (update cloudflare opts newRecord))))"
proof (cases rule: update_cases [where cloudflare = cloudflare and opts = opts and newRecord = newRecord])
  case (verify_rejects e)
  then show ?thesis by (simp add: update_verify_rejects)
next
  case (not_active tokenStatus)
  then show ?thesis by (simp add: update_not_active)
next
  case (zones_reject e)
  then show ?thesis by (simp add: update_zones_reject)
next
  case no_zone
  then show ?thesis by (simp add: update_no_zone)
next
  case (many_zones zones)
  then show ?thesis by (simp add: update_many_zones)
next
  case (records_reject zone e)
  then show ?thesis by (simp add: update_one_zone(1))
next
  case (no_record zone)
  then show ?thesis by (simp add: update_one_zone(2))
next
  case (many_records zone records)
  then show ?thesis by (simp add: update_one_zone(3))
next
  case (no_identifier zone current)
  then show ?thesis by (simp add: update_one_zone(4))
next
  case (identified zone current ident)
  then show ?thesis by (simp add: update_one_zone(5) split: awaited.splits)
qed

theorem C5_witness:
  "(\<exists>msg. snd (update two_zone_provider \<lparr>apiEmail = ''a@b.com'', apiToken = ''tok123''\<rparr>
                 \<lparr>content = ''203.0.113.5'', name = ''home.example.com'', type = A, ttl = 1\<rparr>)
           = Inl (HttpError 400 msg))
   \<and> (\<forall>opts' ident payload. RecordsUpdate opts' ident payload \<notin>
         set (fst (update two_zone_provider \<lparr>apiEmail = ''a@b.com'', apiToken = ''tok123''\<rparr>
                 \<lparr>content = ''203.0.113.5'', name = ''home.example.com'', type = A, ttl = 1\<rparr>)))
   \<and> \<not> (\<exists>msg. snd (update example_provider \<lparr>apiEmail = ''a@b.com'', apiToken = ''tok123''\<rparr>
                 \<lparr>content = ''203.0.113.5'', name = ''home.example.com'', type = A, ttl = 1\<rparr>)
           = Inl (HttpError 400 msg))"
  using C5_config_errors [of two_zone_provider "\<lparr>apiEmail = ''a@b.com'', apiToken = ''tok123''\<rparr>"
      "\<lparr>content = ''203.0.113.5'', name = ''home.example.com'', type = A, ttl = 1\<rparr>"]
    C5_config_errors [of example_provider "\<lparr>apiEmail = ''a@b.com'', apiToken = ''tok123''\<rparr>"
      "\<lparr>content = ''203.0.113.5'', name = ''home.example.com'', type = A, ttl = 1\<rparr>"]
  by (simp add: two_zone_provider_def example_provider_def)

text \<open>
  C6. \<^verbatim>\<open>constructClientOptions\<close> fails with status 401 when there is no \<^verbatim>\<open>Authorization\<close>
  header, and when the text that \<^verbatim>\<open>atob\<close> decoded has no \<^verbatim>\<open>:\<close> or has a character with
  a code from 0 to 31 or the code 127, wherever its \<^verbatim>\<open>:\<close> are.
\<close>

theorem C6_credential_errors:
  "(headers request ''Authorization'' = None \<longrightarrow>
      constructClientOptions request = Inl (HttpError 401 ''API token missing.''))
   \<and> (\<forall>authorization decoded.
         headers request ''Authorization'' = Some authorization \<and> authorization \<noteq> [] \<and>
         atob (second (js_split CHR '' '' authorization)) = Inr decoded \<and>
         (CHR '':'' \<notin> set decoded \<or>
          (\<exists>c\<in>set decoded. (of_char c :: nat) \<le> 31 \<or> (of_char c :: nat) = 127)) \<longrightarrow>
         constructClientOptions request = Inl (HttpError 401 ''Invalid API key or token.''))"
  by (auto simp: constructClientOptions_def Let_def indexOf_absent has_control_char_iff)

theorem C6_witness:
  "constructClientOptions request_C = Inl (HttpError 401 ''API token missing.'')
   \<and> atob (second (js_split CHR '' '' ''Basic YWJj'')) = Inr ''abc''
   \<and> constructClientOptions request_no_colon = Inl (HttpError 401 ''Invalid API key or token.'')
   \<and> atob (second (js_split CHR '' '' ''Basic YQE6Yg=='')) = Inr [CHR ''a'', CHR 0x01, CHR '':'', CHR ''b'']
   \<and> constructClientOptions request_control = Inl (HttpError 401 ''Invalid API key or token.'')"
proof -
  have missing: "headers request_C ''Authorization'' = None"
    by (rule header_C)
  have no_colon: "headers request_no_colon ''Authorization'' = Some ''Basic YWJj''"
    "CHR '':'' \<notin> set ''abc''"
    by (simp_all add: header_no_colon)
  have control: "headers request_control ''Authorization'' = Some ''Basic YQE6Yg==''"
    "\<exists>c\<in>set [CHR ''a'', CHR 0x01, CHR '':'', CHR ''b'']. (of_char c :: nat) \<le> 31 \<or> (of_char c :: nat) = 127"
    by (simp_all add: header_control)
  from C6_credential_errors [of request_C] missing
  have 1: "constructClientOptions request_C = Inl (HttpError 401 ''API token missing.'')"
    by blast
  from C6_credential_errors [of request_no_colon] no_colon options_no_colon
  have 2: "constructClientOptions request_no_colon = Inl (HttpError 401 ''Invalid API key or token.'')"
    by blast
  from C6_credential_errors [of request_control] control options_control
  have 3: "constructClientOptions request_control = Inl (HttpError 401 ''Invalid API key or token.'')"
    by blast
  from 1 2 3 options_no_colon options_control show ?thesis
    by blast
qed

text \<open>
  C7. For an email and a token without control characters, such that \<^verbatim>\<open>email:token\<close> has
  exactly one \<^verbatim>\<open>:\<close>, the credentials extracted from a header made of a scheme, a space
  and the base64 encoding of \<^verbatim>\<open>email:token\<close> are that email and that token.
\<close>

theorem C7_credentials_round_trip:
  assumes "\<not> has_control_char email" and "\<not> has_control_char token"
    and "length (filter (\<lambda>c. c = CHR '':'') (email @ '':'' @ token)) = 1"
    and "CHR '' '' \<notin> set scheme"
    and "headers request ''Authorization'' = Some (scheme @ '' '' @ btoa (email @ '':'' @ token))"
  shows "constructClientOptions request = Inr \<lparr>apiEmail = email, apiToken = token\<rparr>"
proof -
  let ?decoded = "email @ '':'' @ token"
  from assms(3) have "filter (\<lambda>c. c = CHR '':'') email = []"
    by simp
  then have colon: "CHR '':'' \<notin> set email"
    by (auto simp: filter_empty_conv)
  have nospace: "CHR '' '' \<notin> set (btoa ?decoded)"
    using btoa_no_whitespace [of "CHR '' ''" ?decoded] by (auto simp: ascii_whitespace_def)
  have header: "headers request ''Authorization'' = Some (scheme @ '' '' @ btoa ?decoded @ [])"
    using assms(5) by simp
  have atob: "atob (Some (btoa ?decoded)) = Inr ?decoded"
    by (simp add: atob_def atob_btoa)
  have ctl: "\<not> has_control_char ?decoded"
    using assms(1,2) by (simp add: has_control_char_def control_char_def)
  have "takeWhile (\<lambda>c. c \<noteq> CHR '':'') ?decoded = email"
    and "dropWhile (\<lambda>c. c \<noteq> CHR '':'') ?decoded = CHR '':'' # token"
    using colon by (induction email) auto
  then show ?thesis
    using options_of_payload(1) [OF assms(4) nospace _ header] atob ctl by simp
qed

theorem C7_witness:
  "\<not> has_control_char ''a@b.com'' \<and> \<not> has_control_char ''tok123''
   \<and> headers request_A ''Authorization'' = Some (''Basic'' @ '' '' @ btoa (''a@b.com'' @ '':'' @ ''tok123''))
   \<and> constructClientOptions request_A = Inr \<lparr>apiEmail = ''a@b.com'', apiToken = ''tok123''\<rparr>"
proof -
  have c: "\<not> has_control_char ''a@b.com''" "\<not> has_control_char ''tok123''"
    by (simp_all add: has_control_char_def control_char_def)
  have n: "length (filter (\<lambda>c. c = CHR '':'') (''a@b.com'' @ '':'' @ ''tok123'')) = 1"
    by simp
  have s: "CHR '' '' \<notin> set ''Basic''" by simp
  have h: "headers request_A ''Authorization'' = Some (''Basic'' @ '' '' @ btoa (''a@b.com'' @ '':'' @ ''tok123''))"
    using btoa_example by (simp add: header_A)
  show ?thesis
    using C7_credentials_round_trip [OF c n s h] c h by simp
qed

text \<open>
  C8. A record that \<^verbatim>\<open>constructDNSRecord\<close> returns has the type \<^verbatim>\<open>A\<close> exactly when its
  address, the connecting address of the request, contains a \<^verbatim>\<open>.\<close>, and the type \<^verbatim>\<open>AAAA\<close>
  otherwise; its \<^verbatim>\<open>ttl\<close> is 1.
\<close>

theorem C8_record_type_and_ttl:
  assumes "constructDNSRecord request = Inr record"
  shows "clientIp request = Some (content record)
       \<and> (type record = A \<longleftrightarrow> CHR ''.'' \<in> set (content record))
       \<and> (type record = AAAA \<longleftrightarrow> CHR ''.'' \<notin> set (content record))
       \<and> ttl record = 1"
  using assms
  by (auto simp: constructDNSRecord_def split: option.splits if_splits)

theorem C8_witness:
  "constructDNSRecord request_B =
     Inr \<lparr>content = ''2001:db8::1'', name = ''home.example.com'', type = AAAA, ttl = 1\<rparr>
   \<and> CHR ''.'' \<notin> set ''2001:db8::1''
   \<and> clientIp request_B = Some ''2001:db8::1''"
  using C8_record_type_and_ttl [OF record_B] record_B by simp

text \<open>
  C9. \<^verbatim>\<open>constructDNSRecord\<close> fails with status 422 exactly when the \<^verbatim>\<open>hostname\<close> parameter is
  missing or empty, whatever the \<^verbatim>\<open>ip\<close> parameter; with a hostname that is not empty it
  fails with status 500 exactly when neither \<^verbatim>\<open>request.cf\<close> nor the \<^verbatim>\<open>CF-Connecting-IP\<close>
  header gives an address that is not empty.
\<close>

theorem C9_record_builder_errors:
  "((\<exists>msg. constructDNSRecord request = Inl (HttpError 422 msg)) \<longleftrightarrow>
      searchParams_get (searchParams request) ''hostname'' = None
      \<or> searchParams_get (searchParams request) ''hostname'' = Some [])
   \<and> (\<forall>hostname. searchParams_get (searchParams request) ''hostname'' = Some hostname \<and> hostname \<noteq> [] \<longrightarrow>
        ((\<exists>msg. constructDNSRecord request = Inl (HttpError 500 msg)) \<longleftrightarrow>
           (cf request = None
            \<or> (\<exists>c. cf request = Some c \<and> (connectingIp c = None \<or> connectingIp c = Some [])))
           \<and> (headers request ''CF-Connecting-IP'' = None
                \<or> headers request ''CF-Connecting-IP'' = Some [])))"
  by (auto simp: constructDNSRecord_def clientIp_def js_or_def split: option.splits if_splits)

theorem C9_witness:
  "(\<exists>msg. constructDNSRecord request_D = Inl (HttpError 422 msg))
   \<and> searchParams_get (searchParams request_D) ''ip'' = Some ''198.51.100.7''
   \<and> (\<exists>msg. constructDNSRecord (request_A\<lparr>cf := None\<rparr>) = Inl (HttpError 500 msg))"
  using C9_record_builder_errors [of request_D] C9_record_builder_errors [of "request_A\<lparr>cf := None\<rparr>"]
  by (simp add: request_D_def request_A_def searchParams_get_def headers_def)

text \<open>
  C10 (corrected). The claim: for every scheme, an empty one included, a header made of
  the scheme, a space and a payload that decodes to \<^verbatim>\<open>email:token\<close> gives the same
  credentials. With an empty scheme the value begins with the space, and \<^verbatim>\<open>get\<close> returns
  it without: the handler sees the payload alone, \<^verbatim>\<open>split\<close> gives one piece, and \<^verbatim>\<open>atob\<close>
  throws on \<^verbatim>\<open>undefined\<close>, where the scheme \<^verbatim>\<open>Basic\<close> before the same payload succeeds.
\<close>

theorem C10_counterexample:
  "constructClientOptions request_A = Inr \<lparr>apiEmail = ''a@b.com'', apiToken = ''tok123''\<rparr>
   \<and> headers request_empty_scheme ''Authorization'' = Some ''YUBiLmNvbTp0b2sxMjM=''
   \<and> constructClientOptions request_empty_scheme = Inl (Thrown ''InvalidCharacterError'')
   \<and> constructClientOptions_part000 request_empty_scheme = Inl (Thrown ''InvalidCharacterError'')"
  by (simp add: options_A header_empty_scheme options_empty_scheme)

text \<open>
  C10 as amended. The scheme of the \<^verbatim>\<open>Authorization\<close> header is not validated beyond being
  there. For a header value made of a scheme that is not empty, a space, a payload and
  then nothing or a space and any text, where neither the scheme nor the payload has a
  space, only the payload is decoded and the credentials are computed from the payload
  alone, in both source files: the scheme and the text after the second space do not
  occur in the result, and a payload that decodes to a text with a \<^verbatim>\<open>:\<close> and without
  control characters gives the part before the first \<^verbatim>\<open>:\<close> and the part after it.
\<close>

theorem C10_scheme_not_validated:
  assumes "scheme \<noteq> []" and "CHR '' '' \<notin> set scheme" and "CHR '' '' \<notin> set payload"
    and "rest = [] \<or> (\<exists>t. rest = CHR '' '' # t)"
    and "headers request ''Authorization'' = Some (scheme @ '' '' @ payload @ rest)"
  shows "second (js_split CHR '' '' (scheme @ '' '' @ payload @ rest)) = Some payload
       \<and> constructClientOptions request =
           (case atob (Some payload) of
              Inl e \<Rightarrow> Inl e
            | Inr decoded \<Rightarrow>
                if CHR '':'' \<notin> set decoded \<or> has_control_char decoded
                then Inl (HttpError 401 ''Invalid API key or token.'')
                else Inr \<lparr>apiEmail = takeWhile (\<lambda>c. c \<noteq> CHR '':'') decoded,
                          apiToken = tl (dropWhile (\<lambda>c. c \<noteq> CHR '':'') decoded)\<rparr>)
       \<and> constructClientOptions_part000 request =
           (case atob (Some payload) of
              Inl e \<Rightarrow> Inl e
            | Inr decoded \<Rightarrow>
                if CHR '':'' \<notin> set decoded \<or> has_control_char decoded
                then Inl (HttpError 401 ''Invalid API key or token format in Authorization header.'')
                else Inr \<lparr>apiEmail = takeWhile (\<lambda>c. c \<noteq> CHR '':'') decoded,
                          apiToken = tl (dropWhile (\<lambda>c. c \<noteq> CHR '':'') decoded)\<rparr>)"
  using second_piece [OF assms(2-4)] options_of_payload [OF assms(2-5)] by simp

theorem C10_witness:
  "headers request_wrong_scheme ''Authorization'' = Some (''Bogus'' @ '' '' @ ''YUBiLmNvbTp0b2sxMjM='' @ '' and more'')
   \<and> constructClientOptions request_wrong_scheme
       = Inr \<lparr>apiEmail = ''a@b.com'', apiToken = ''tok123''\<rparr>
   \<and> constructClientOptions_part000 request_wrong_scheme
       = Inr \<lparr>apiEmail = ''a@b.com'', apiToken = ''tok123''\<rparr>"
proof -
  have atob: "atob (Some ''YUBiLmNvbTp0b2sxMjM='') = Inr ''a@b.com:tok123''"
    by code_simp
  have ctl: "\<not> has_control_char ''a@b.com:tok123''"
    by (simp add: has_control_char_def control_char_def)
  have 0: "''Bogus'' \<noteq> []" and 1: "CHR '' '' \<notin> set ''Bogus''"
    and 2: "CHR '' '' \<notin> set ''YUBiLmNvbTp0b2sxMjM=''"
    and 3: "'' and more'' = [] \<or> (\<exists>t. '' and more'' = CHR '' '' # t)"
    by simp_all
  have 4: "headers request_wrong_scheme ''Authorization''
      = Some (''Bogus'' @ '' '' @ ''YUBiLmNvbTp0b2sxMjM='' @ '' and more'')"
    by (simp add: header_wrong_scheme)
  show ?thesis
    using C10_scheme_not_validated [OF 0 1 2 3 4] atob ctl 4
    by simp
qed

end
